theory Spec2Isabelle
  imports Main "HOL-Library.Word" "HOL-Library.Sublist"
begin

section \<open>JavaScript strings\<close>

text \<open>
  A JavaScript string is a sequence of UTF-16 code units; \<open>length\<close>, the regular
  expressions (written without the \<open>u\<close> flag) and \<open>trim\<close> all work on code units.
  The bullet character U+2022 is one code unit that does not fit a byte, so strings are
  lists of 16-bit words and not HOL's \<open>string\<close>.
\<close>

type_synonym jschar = "16 word"
type_synonym jsstring = "jschar list"

text \<open>An ASCII literal of the source, as code units.\<close>

definition js :: "string \<Rightarrow> jsstring" where
  "js s = map (\<lambda>c. of_nat (of_char c)) s"

definition LF :: jschar where "LF = 0x0A"
definition space :: jschar where "space = 0x20"
definition star :: jschar where "star = 0x2A"
definition hyphen :: jschar where "hyphen = 0x2D"
definition bullet :: jschar where "bullet = 0x2022"
definition hash :: jschar where "hash = 0x23"
definition colon :: jschar where "colon = 0x3A"
definition equals :: jschar where "equals = 0x3D"
definition backtick :: jschar where "backtick = 0x60"
definition TAB :: jschar where "TAB = 0x09"

text \<open>
  The class \<open>\s\<close> of a JavaScript regular expression, which is also what \<open>trim\<close>
  removes: WhiteSpace (TAB, VT, FF, SP, NBSP, ZWNBSP and the Unicode space separators)
  and LineTerminator (LF, CR, LS, PS).
\<close>

definition is_ws :: "jschar \<Rightarrow> bool" where
  "is_ws c \<longleftrightarrow>
     c = 0x09 \<or> c = 0x0A \<or> c = 0x0B \<or> c = 0x0C \<or> c = 0x0D \<or> c = 0x20 \<or> c = 0xA0 \<or>
     c = 0x1680 \<or> (0x2000 \<le> c \<and> c \<le> 0x200A) \<or> c = 0x2028 \<or> c = 0x2029 \<or>
     c = 0x202F \<or> c = 0x205F \<or> c = 0x3000 \<or> c = 0xFEFF"

text \<open>\<open>s.trim()\<close>\<close>

definition trim :: "jsstring \<Rightarrow> jsstring" where
  "trim s = rev (dropWhile is_ws (rev (dropWhile is_ws s)))"

text \<open>
  \<open>text.split("\n")\<close>: the empty string gives one empty line. The result is never
  empty (lemma \<open>split_lines_not_Nil\<close>), so the second branch of the \<open>case\<close> is
  never taken.
\<close>

fun split_lines :: "jsstring \<Rightarrow> jsstring list" where
  "split_lines [] = [[]]"
| "split_lines (c # cs) =
     (if c = LF then [] # split_lines cs
      else (case split_lines cs of
              l # ls \<Rightarrow> (c # l) # ls
            | [] \<Rightarrow> [[c]]))"

text \<open>\<open>xs.join(sep)\<close>, and \<open>lines.join("\n")\<close>\<close>

fun join_with :: "jsstring \<Rightarrow> jsstring list \<Rightarrow> jsstring" where
  "join_with sep [] = []"
| "join_with sep [x] = x"
| "join_with sep (x # xs) = x @ sep @ join_with sep xs"

definition join_lines :: "jsstring list \<Rightarrow> jsstring" where
  "join_lines ls = join_with [LF] ls"


section \<open>The chat text normalizer\<close>

text \<open>
  The pipeline that both chat handlers apply to the model's text:
  \<^verbatim>\<open>
  text.split("\n")
      .filter((line) => line.trim())
      .map((point) => point.replace(/\*\*/g, "").replace(/\*/g, "")
                           .replace(/^[-\<bullet>*]\s*/, "").replace(/^#+\s*/, "")
                           .replace(/\s+/g, " ").trim())
      .filter((point) => point && !point.match(/^[:#\-=]/))
      .filter((point) => point.length > 10)
  \<close>
  Each replacement is one function, named after the comment the source gives it.
\<close>

text \<open>\<open>.replace(/\*\*/g, "")\<close>: left to right, every pair of stars is removed.\<close>

fun remove_bold :: "jsstring \<Rightarrow> jsstring" where
  "remove_bold (a # b # cs) =
     (if a = star \<and> b = star then remove_bold cs else a # remove_bold (b # cs))"
| "remove_bold cs = cs"

text \<open>\<open>.replace(/\*/g, "")\<close>\<close>

definition remove_italics :: "jsstring \<Rightarrow> jsstring" where
  "remove_italics s = filter (\<lambda>c. c \<noteq> star) s"

text \<open>
  \<open>.replace(/^[-\<bullet>*]\s*/, "")\<close>: without the \<open>g\<close> and \<open>m\<close> flags the pattern
  matches at index 0 only, one marker and the white space after it.
\<close>

definition remove_bullet :: "jsstring \<Rightarrow> jsstring" where
  "remove_bullet s =
     (case s of
        [] \<Rightarrow> []
      | c # cs \<Rightarrow> if c = hyphen \<or> c = bullet \<or> c = star then dropWhile is_ws cs else s)"

text \<open>\<open>.replace(/^#+\s*/, "")\<close>\<close>

definition remove_header :: "jsstring \<Rightarrow> jsstring" where
  "remove_header s =
     (case s of
        [] \<Rightarrow> []
      | c # cs \<Rightarrow>
          if c = hash then dropWhile is_ws (dropWhile (\<lambda>d. d = hash) cs) else s)"

text \<open>\<open>.replace(/\s+/g, " ")\<close>: every maximal run of white space becomes one space.\<close>

function normalize_spaces :: "jsstring \<Rightarrow> jsstring" where
  "normalize_spaces [] = []"
| "normalize_spaces (c # cs) =
     (if is_ws c then space # normalize_spaces (dropWhile is_ws cs)
      else c # normalize_spaces cs)"
  by pat_completeness auto
termination
  by (relation "measure length") (auto simp: length_dropWhile_le less_Suc_eq_le)

text \<open>The function passed to \<open>map\<close>.\<close>

definition clean_point :: "jsstring \<Rightarrow> jsstring" where
  "clean_point point =
     trim (normalize_spaces (remove_header (remove_bullet (remove_italics (remove_bold point)))))"

text \<open>\<open>point.match(/^[:#\-=]/)\<close>: the first code unit is one of the four.\<close>

definition is_separator :: "jsstring \<Rightarrow> bool" where
  "is_separator point =
     (case point of
        [] \<Rightarrow> False
      | c # _ \<Rightarrow> c = colon \<or> c = hash \<or> c = hyphen \<or> c = equals)"

definition points :: "jsstring \<Rightarrow> jsstring list" where
  "points text =
     filter (\<lambda>point. length point > 10)
       (filter (\<lambda>point. point \<noteq> [] \<and> \<not> is_separator point)
          (map clean_point
             (filter (\<lambda>line. trim line \<noteq> []) (split_lines text))))"

text \<open>
  The shape \<open>.replace(/\s+/g, " ")\<close> leaves: the only white space is the space, and
  no two white-space code units are adjacent.
\<close>

fun single_spaced :: "jsstring \<Rightarrow> bool" where
  "single_spaced [] = True"
| "single_spaced [c] = (is_ws c \<longrightarrow> c = space)"
| "single_spaced (a # b # cs) =
     ((is_ws a \<longrightarrow> a = space \<and> \<not> is_ws b) \<and> single_spaced (b # cs))"


subsection \<open>The discard rule as the specification words it\<close>

text \<open>
  "Discard lines that, after the above, are empty, consist solely of
  separator/punctuation characters (\<open>:\<close>, \<open>#\<close>, \<open>-\<close>, \<open>=\<close>), or have length \<open>\<le>\<close> 10."
\<close>

definition only_separators :: "jsstring \<Rightarrow> bool" where
  "only_separators p = list_all (\<lambda>c. c = colon \<or> c = hash \<or> c = hyphen \<or> c = equals) p"

definition spec_discard :: "jsstring \<Rightarrow> bool" where
  "spec_discard p \<longleftrightarrow> p = [] \<or> only_separators p \<or> length p \<le> 10"


section \<open>Values, errors and collaborators\<close>

text \<open>A thrown \<open>Error\<close>, with its \<open>message\<close>.\<close>

datatype jserror = JsError (error_message: jsstring)

text \<open>
  A value decoded from JSON (a request body, or the result of \<open>JSON.parse\<close>). The code
  does no arithmetic; of a number it reads only its truth value and its text inside a
  template literal. A number is therefore kept as its canonical text (what
  \<open>Number.prototype.toString\<close> gives: \<open>0\<close>, \<open>NaN\<close>, \<open>1.5\<close>, \<open>1e+21\<close>), which
  determines the number up to the sign of zero.
\<close>

datatype jsval =
    JNull
  | JBool bool
  | JNum jsstring
  | JStr jsstring
  | JArr "jsval list"
  | JObj "(jsstring \<times> jsval) list"

text \<open>The truth value \<open>!!v\<close> of a value; \<open>None\<close> is \<open>undefined\<close>.\<close>

fun truthy :: "jsval \<Rightarrow> bool" where
  "truthy JNull = False"
| "truthy (JBool b) = b"
| "truthy (JNum r) = (r \<noteq> js ''0'' \<and> r \<noteq> js ''NaN'')"
| "truthy (JStr s) = (s \<noteq> [])"
| "truthy (JArr _) = True"
| "truthy (JObj _) = True"

definition truthy_text :: "jsstring option \<Rightarrow> bool" where
  "truthy_text t = (case t of None \<Rightarrow> False | Some s \<Rightarrow> s \<noteq> [])"

definition comma :: jschar where "comma = 0x2C"
definition dquote :: jschar where "dquote = 0x22"

text \<open>
  The text of a value inside a template literal, \<open>`${v}`\<close>. An array is joined with
  commas, \<open>null\<close> elements giving the empty string. A decoded object has no callable
  property, so one with a key \<open>toString\<close> of its own cannot be converted and
  the conversion throws a TypeError; any other object gives \<open>[object Object]\<close>.
\<close>

fun to_string :: "jsval \<Rightarrow> jserror + jsstring"
  and join_elements :: "jsval list \<Rightarrow> jserror + jsstring"
  where
  "to_string JNull = Inr (js ''null'')"
| "to_string (JBool b) = Inr (if b then js ''true'' else js ''false'')"
| "to_string (JNum r) = Inr r"
| "to_string (JStr s) = Inr s"
| "to_string (JArr vs) = join_elements vs"
| "to_string (JObj kvs) =
     (if js ''toString'' \<in> fst ` set kvs
      then Inl (JsError (js ''Cannot convert object to primitive value''))
      else Inr (js ''[object Object]''))"
| "join_elements [] = Inr []"
| "join_elements (v # vs) =
     (case (if v = JNull then Inr [] else to_string v) of
        Inl e \<Rightarrow> Inl e
      | Inr s \<Rightarrow>
          (if vs = [] then Inr s
           else (case join_elements vs of
                   Inl e \<Rightarrow> Inl e
                 | Inr r \<Rightarrow> Inr (s @ comma # r))))"

text \<open>
  One part of a request to the model: text, or inline data (base64 text and media type).
  A request is \<open>{contents: [{role: "user", parts}]}\<close>, that is, its parts.
\<close>

datatype part = Text jsstring | InlineData jsstring jsstring

type_synonym request = "part list"

text \<open>Dates are clock readings, in milliseconds.\<close>

type_synonym date = int

text \<open>
  What the code takes from its platform and its collaborators:
  \<^item> \<open>generateContent\<close>: the model. \<open>generateContent calls r\<close> is the outcome of
    \<open>(await model.generateContent(r)).response.text()\<close> after the earlier calls
    \<open>calls\<close>: the reply text, or the error thrown by the call or by \<open>text()\<close>;
  \<^item> \<open>toLowerCase\<close>: \<open>String.prototype.toLowerCase\<close>;
  \<^item> \<open>JSON_parse\<close>: \<open>JSON.parse\<close>, the decoded value or the SyntaxError;
  \<^item> \<open>base64\<close>: \<open>Buffer.from(bytes).toString("base64")\<close>;
  \<^item> \<open>store_error\<close>: the error the document store raises on a write, if it does.
\<close>

record env =
  generateContent :: "request list \<Rightarrow> request \<Rightarrow> jserror + jsstring"
  toLowerCase :: "jsstring \<Rightarrow> jsstring"
  JSON_parse :: "jsstring \<Rightarrow> jserror + jsval"
  base64 :: "8 word list \<Rightarrow> jsstring"
  store_error :: "jserror option"

text \<open>A document of the \<open>Routine\<close> collection (\<open>routineSchema\<close>).\<close>

record routine_doc =
  userId :: jsstring
  routine :: "jsstring list"
  createdAt :: date
  updatedAt :: date

text \<open>
  The state a handler reads and changes: the calls made to the model so far, the files
  of the upload directory, and the \<open>Routine\<close> collection (in insertion order; the
  index on \<open>userId\<close> is not unique).
\<close>

record world =
  calls :: "request list"
  files :: "jsstring \<rightharpoonup> 8 word list"
  routines :: "routine_doc list"

text \<open>The response sent: \<open>res.json\<close> of a success, or \<open>res.status(n).json\<close> of an
  error with its optional \<open>details\<close>.\<close>

datatype response =
    Points "jsstring list" date
  | Routine "jsstring list" date date
  | Failure nat jsstring "jsstring option"

text \<open>The errors of the specification's taxonomy, as the responses the code sends.\<close>

definition MissingMessage :: response where
  "MissingMessage = Failure 400 (js ''Message is required'') None"

definition MissingInput :: response where
  "MissingInput = Failure 400 (js ''Please provide either text or an image.'') None"

definition OutOfDomain :: response where
  "OutOfDomain =
     Failure 400
       (js ''I am designed to assist with health-related queries only. Please ask questions about health, medicine, wellness, or medical topics.'')
       None"

definition GenerationFailure :: "jserror \<Rightarrow> response" where
  "GenerationFailure e =
     Failure 500 (js ''Failed to get response from Gemini API'') (Some (error_message e))"

definition ImageProcessingFailure :: response where
  "ImageProcessingFailure =
     Failure 500 (js ''Failed to process image file.'') (Some (js ''Could not read image file.''))"

definition MissingUserId :: response where
  "MissingUserId = Failure 400 (js ''User ID is required'') None"

definition AnswerCountMismatch :: response where
  "AnswerCountMismatch = Failure 400 (js ''Please provide answers for all questions'') None"

definition RoutineGenerationFailure :: "jserror \<Rightarrow> response" where
  "RoutineGenerationFailure e =
     Failure 500 (js ''Failed to generate routine'') (Some (error_message e))"

definition MalformedRoutineOutput :: response where
  "MalformedRoutineOutput =
     Failure 500 (js ''Failed to generate routine'')
       (Some (js ''Invalid response format from AI model''))"

definition SaveFailure :: "jserror \<Rightarrow> response" where
  "SaveFailure e = Failure 500 (js ''Failed to save routine'') (Some (error_message e))"


section \<open>The domain classifier\<close>

text \<open>The text sent by \<open>isHealthRelated\<close>, with the message between double quotes.\<close>

definition classify_prompt :: "jsstring \<Rightarrow> jsstring" where
  "classify_prompt message =
     js ''Determine if this message is related to healthcare, medicine, wellness, or health. Only respond with 'true' or 'false': ''
       @ dquote # message @ [dquote]"

text \<open>
  \<open>isHealthRelated\<close>: one call to the model; the reply is lower-cased, trimmed and
  compared with \<open>"true"\<close>. Whatever the \<open>try\<close> block throws is caught and gives
  \<open>false\<close>.
\<close>

definition isHealthRelated :: "env \<Rightarrow> jsstring \<Rightarrow> world \<Rightarrow> bool \<times> world" where
  "isHealthRelated env message w =
     (let r = [Text (classify_prompt message)];
          w' = w\<lparr>calls := calls w @ [r]\<rparr>
      in case generateContent env (calls w) r of
           Inl error \<Rightarrow> (False, w')
         | Inr text \<Rightarrow> (trim (toLowerCase env text) = js ''true'', w'))"


section \<open>The chat handlers\<close>

definition chat_prompt :: "jsstring \<Rightarrow> jsstring" where
  "chat_prompt message =
     js ''Please provide a response to this health-related query in the following format:'' @ LF #
     js ''          - Each main point should be a separate, complete sentence'' @ LF #
     js ''          - If there are related subpoints, include them in the same sentence using appropriate connecting words (and, additionally, moreover, including, such as, etc.)'' @ LF #
     js ''          - Do not use bullet points, markdown, or special formatting'' @ LF #
     js ''          - Each point should be on a new line'' @ LF #
     js ''          - Keep the points concise but informative'' @ LF #
     js ''          Query: '' @ message"

definition image_instruction :: jsstring where
  "image_instruction =
     js ''Please analyze this image and provide observations in the following format:'' @ LF #
     js ''          - Each main point should be a separate, complete sentence'' @ LF #
     js ''          - If there are related details, include them in the same sentence using appropriate connecting words'' @ LF #
     js ''          - Do not use bullet points, markdown, or special formatting'' @ LF #
     js ''          - Each point should be on a new line'' @ LF #
     js ''          - Keep the points concise but informative''"

text \<open>
  \<open>POST /api/chat\<close>. The message is the text of the query, or absent (a message of
  another JSON type is outside this model); \<open>now\<close> is the clock reading of
  \<open>new Date()\<close> when the response is assembled, which stands for the timestamp.
\<close>

definition chat :: "env \<Rightarrow> date \<Rightarrow> jsstring option \<Rightarrow> world \<Rightarrow> response \<times> world" where
  "chat env now message w =
     (case message of
        None \<Rightarrow> (MissingMessage, w)
      | Some m \<Rightarrow>
          if m = [] then (MissingMessage, w)
          else
            (case isHealthRelated env m w of
               (healthRelated, w1) \<Rightarrow>
                 if \<not> healthRelated then (OutOfDomain, w1)
                 else
                   (let r = [Text (chat_prompt m)];
                        w2 = w1\<lparr>calls := calls w1 @ [r]\<rparr>
                    in case generateContent env (calls w1) r of
                         Inl error \<Rightarrow> (GenerationFailure error, w2)
                       | Inr text \<Rightarrow> (Points (points text) now, w2))))"

text \<open>The file that multer stored for the request (\<open>req.file\<close>).\<close>

record upload =
  path :: jsstring
  mimetype :: jsstring

text \<open>
  \<open>fileToGenerativePart\<close>: the file is read and encoded; the read fails when the
  file is not there, and any failure of the read is rethrown as
  \<open>Could not read image file.\<close>
\<close>

definition fileToGenerativePart :: "env \<Rightarrow> jsstring \<Rightarrow> jsstring \<Rightarrow> world \<Rightarrow> jserror + part" where
  "fileToGenerativePart env filePath mimeType w =
     (case files w filePath of
        None \<Rightarrow> Inl (JsError (js ''Could not read image file.''))
      | Some imageData \<Rightarrow> Inr (InlineData (base64 env imageData) mimeType))"

text \<open>\<open>if (imageFile && fs.existsSync(imageFile.path)) fs.unlinkSync(imageFile.path)\<close>\<close>

definition unlink_upload :: "upload option \<Rightarrow> world \<Rightarrow> world" where
  "unlink_upload imageFile w =
     (case imageFile of
        None \<Rightarrow> w
      | Some f \<Rightarrow>
          if files w (path f) \<noteq> None then w\<lparr>files := (files w)(path f := None)\<rparr> else w)"

text \<open>
  \<open>POST /api/chat-with-image\<close>, with the text field (a string, or absent) and the
  stored upload (or none). The classifier runs only when there is text; without text
  the check is skipped, written here as the verdict true that costs no call. With text,
  the first part is the query inside the instruction template; without, the fixed
  instruction is put in front of the image part. The upload is removed on every path
  that ends after the check.
\<close>

definition chat_with_image ::
  "env \<Rightarrow> date \<Rightarrow> jsstring option \<Rightarrow> upload option \<Rightarrow> world \<Rightarrow> response \<times> world" where
  "chat_with_image env now userText imageFile w =
     (if \<not> truthy_text userText \<and> imageFile = None then (MissingInput, w)
      else
        (case (case userText of
                 None \<Rightarrow> (True, w)
               | Some t \<Rightarrow> if t = [] then (True, w) else isHealthRelated env t w) of
           (healthRelated, w1) \<Rightarrow>
             if \<not> healthRelated then (OutOfDomain, unlink_upload imageFile w1)
             else
               (case (case imageFile of
                        None \<Rightarrow> Inr []
                      | Some f \<Rightarrow>
                          (case fileToGenerativePart env (path f) (mimetype f) w1 of
                             Inl error \<Rightarrow> Inl error
                           | Inr imagePart \<Rightarrow> Inr [imagePart])) of
                  Inl error \<Rightarrow>
                    (Failure 500 (js ''Failed to process image file.'') (Some (error_message error)),
                     unlink_upload imageFile w1)
                | Inr imageParts \<Rightarrow>
                    (let parts =
                           (case userText of
                              None \<Rightarrow> Text image_instruction # imageParts
                            | Some t \<Rightarrow>
                                if t = [] then Text image_instruction # imageParts
                                else Text (chat_prompt t) # imageParts);
                         w2 = w1\<lparr>calls := calls w1 @ [parts]\<rparr>
                     in case generateContent env (calls w1) parts of
                          Inl error \<Rightarrow> (GenerationFailure error, unlink_upload imageFile w2)
                        | Inr text \<Rightarrow> (Points (points text) now, unlink_upload imageFile w2)))))"


section \<open>The routine generator\<close>

definition routineQuestions :: "jsstring list" where
  "routineQuestions =
     [js ''What time do you usually wake up in the morning?'',
      js ''What time do you usually go to bed at night?'',
      js ''Do you have any specific health conditions or concerns?'',
      js ''What is your current activity level? (sedentary, light, moderate, very active)'',
      js ''What are your main health and wellness goals?'',
      js ''Do you have any dietary restrictions or preferences?'',
      js ''How much time can you dedicate to exercise daily?'',
      js ''Do you have any specific stress management needs?'',
      js ''What is your work schedule like?'',
      js ''Do you have any specific sleep issues or requirements?'']"

text \<open>\<open>Array.isArray(v)\<close>, and the elements of an array.\<close>

fun isArray :: "jsval \<Rightarrow> bool" where
  "isArray (JArr _) = True"
| "isArray _ = False"

fun elements :: "jsval \<Rightarrow> jsval list" where
  "elements (JArr vs) = vs"
| "elements _ = []"

text \<open>\<open>answers[index]\<close> inside the template literal: \<open>undefined\<close> past the end.\<close>

definition answer_text :: "jsval list \<Rightarrow> nat \<Rightarrow> jserror + jsstring" where
  "answer_text answers index =
     (if index < length answers then to_string (answers ! index) else Inr (js ''undefined''))"

text \<open>The results of a \<open>map\<close> whose callback may throw: the first error, or all values.\<close>

fun collect :: "(jserror + 'a) list \<Rightarrow> jserror + 'a list" where
  "collect [] = Inr []"
| "collect (x # xs) =
     (case x of
        Inl e \<Rightarrow> Inl e
      | Inr v \<Rightarrow> (case collect xs of Inl e \<Rightarrow> Inl e | Inr vs \<Rightarrow> Inr (v # vs)))"

definition formattedAnswers :: "jsval list \<Rightarrow> jserror + jsstring" where
  "formattedAnswers answers =
     (case collect
             (map (\<lambda>(question, index).
                     case answer_text answers index of
                       Inl e \<Rightarrow> Inl e
                     | Inr a \<Rightarrow> Inr (js ''Q: '' @ question @ LF # js ''A: '' @ a))
                (zip routineQuestions [0 ..< length routineQuestions])) of
        Inl e \<Rightarrow> Inl e
      | Inr blocks \<Rightarrow> Inr (join_with [LF, LF] blocks))"

definition promptText :: "jsstring \<Rightarrow> jsstring" where
  "promptText formatted =
     js ''You are Dr. Early Pulse, a wellness expert. '' @
     js ''Based on the user's answers, generate a personalized list of daily tasks. '' @
     js ''Output **only** a JSON array of strings, e.g. ['' @ dquote #
     js ''Wake up at 6:30 AM'' @ dquote # comma # dquote # js ''Drink water'' @ dquote #
     comma # dquote # js ''...'' @ dquote # js '']. '' @
     js ''Do not wrap it in any extra text or markdown.'' @ LF # LF #
     js ''User's answers:'' @ LF # formatted"

text \<open>
  The fences: \<open>raw.replace(/^```(?:json)?\s*/, "")\<close> and \<open>raw.replace(/\s*```$/, "")\<close>,
  applied when \<open>raw.startsWith("```")\<close>. The second pattern matches from the first
  position at which white space and then the three backticks reach the end of the text.
\<close>

definition fence :: jsstring where
  "fence = [backtick, backtick, backtick]"

definition strip_opening_fence :: "jsstring \<Rightarrow> jsstring" where
  "strip_opening_fence raw =
     (if prefix fence raw
      then (let r = drop 3 raw
            in dropWhile is_ws (if prefix (js ''json'') r then drop 4 r else r))
      else raw)"

definition strip_closing_fence :: "jsstring \<Rightarrow> jsstring" where
  "strip_closing_fence raw =
     (if suffix fence raw
      then rev (dropWhile is_ws (rev (take (length raw - 3) raw)))
      else raw)"

definition strip_fences :: "jsstring \<Rightarrow> jsstring" where
  "strip_fences raw =
     (if prefix fence raw then strip_closing_fence (strip_opening_fence raw) else raw)"

text \<open>\<open>routineTasks.every((t) => typeof t === "string")\<close>, with the strings.\<close>

fun strings :: "jsval list \<Rightarrow> jsstring list option" where
  "strings [] = Some []"
| "strings (JStr s # vs) = map_option ((#) s) (strings vs)"
| "strings (_ # vs) = None"

text \<open>
  From the reply text to the routine's tasks: trim, strip the fences, \<open>JSON.parse\<close>, and
  require an array of strings. \<open>None\<close> is the \<open>catch\<close> branch, entered by the
  SyntaxError of \<open>JSON.parse\<close> and by the error thrown for any other shape.
\<close>

definition routineTasks :: "env \<Rightarrow> jsstring \<Rightarrow> jsstring list option" where
  "routineTasks env text =
     (let raw = strip_fences (trim text)
      in case JSON_parse env raw of
           Inl error \<Rightarrow> None
         | Inr (JArr vs) \<Rightarrow> strings vs
         | Inr _ \<Rightarrow> None)"

text \<open>
  Modelled from the spec: the document store's upsert by key, which the code reaches as
  \<open>Routine.findOneAndUpdate({userId}, {routine, updatedAt}, {new: true, upsert: true})\<close>
  of the mongoose library; the library is not among the sources. Section 4.5, step 6:
  "replace \<open>routine\<close> field wholesale, set \<open>updatedAt\<close> to now; create the document with
  \<open>createdAt\<close> set to now if absent. Return the post-upsert document". The first document
  of the user is the one updated; a new document goes to the end of the collection. The
  \<open>updatedAt\<close> written is the date the handler passes, \<open>createdAt\<close> of a new document is
  the schema's default \<open>Date.now\<close>, read by the store at insertion (\<open>inserted\<close>).
\<close>

fun findOneAndUpdate ::
  "jsstring \<Rightarrow> jsstring list \<Rightarrow> date \<Rightarrow> date \<Rightarrow> routine_doc list \<Rightarrow> routine_doc \<times> routine_doc list"
  where
  "findOneAndUpdate u r t inserted [] =
     (let d = \<lparr>userId = u, routine = r, createdAt = inserted, updatedAt = t\<rparr> in (d, [d]))"
| "findOneAndUpdate u r t inserted (d # ds) =
     (if userId d = u
      then (let d' = d\<lparr>routine := r, updatedAt := t\<rparr> in (d', d' # ds))
      else (case findOneAndUpdate u r t inserted ds of (d', ds') \<Rightarrow> (d', d # ds')))"

text \<open>
  \<open>POST /api/v1/routine/generate\<close>, with \<open>userId\<close> (a string, or absent; a user id
  of another JSON type is outside this model) and \<open>answers\<close> (any value, or absent)
  taken from the body; \<open>now\<close> is the handler's \<open>new Date()\<close>. Past the validation
  \<open>answers\<close> is present, and an array.
\<close>

definition generate ::
  "env \<Rightarrow> date \<Rightarrow> date \<Rightarrow> jsstring option \<Rightarrow> jsval option \<Rightarrow> world \<Rightarrow> response \<times> world"
  where
  "generate env now inserted user answers w =
     (case user of
        None \<Rightarrow> (MissingUserId, w)
      | Some u \<Rightarrow>
          if u = [] then (MissingUserId, w)
          else if (case answers of
                     None \<Rightarrow> True
                   | Some a \<Rightarrow>
                       \<not> truthy a \<or> \<not> isArray a \<or>
                       length (elements a) \<noteq> length routineQuestions)
          then (AnswerCountMismatch, w)
          else
            (case formattedAnswers (case answers of None \<Rightarrow> [] | Some a \<Rightarrow> elements a) of
               Inl error \<Rightarrow> (RoutineGenerationFailure error, w)
             | Inr formatted \<Rightarrow>
                 (let r = [Text (promptText formatted)];
                      w1 = w\<lparr>calls := calls w @ [r]\<rparr>
                  in case generateContent env (calls w) r of
                       Inl error \<Rightarrow> (RoutineGenerationFailure error, w1)
                     | Inr text \<Rightarrow>
                         (case routineTasks env text of
                            None \<Rightarrow> (MalformedRoutineOutput, w1)
                          | Some tasks \<Rightarrow>
                              (case store_error env of
                                 Some error \<Rightarrow> (SaveFailure error, w1)
                               | None \<Rightarrow>
                                   (case findOneAndUpdate u tasks now inserted (routines w1) of
                                      (routineDoc, ds) \<Rightarrow>
                                        (Routine (routine routineDoc) (createdAt routineDoc)
                                           (updatedAt routineDoc),
                                         w1\<lparr>routines := ds\<rparr>)))))))"


section \<open>Sample collaborators\<close>

text \<open>
  Concrete collaborators on which the theorems below are run: a lower-casing of the
  ASCII letters, a decoder that knows the two texts it is given here (and decodes them
  as \<open>JSON.parse\<close> does), an encoder that knows the one file read here (a single
  zero byte), and a model that gives the same outcome to every call.
\<close>

definition ascii_lower :: "jsstring \<Rightarrow> jsstring" where
  "ascii_lower s = map (\<lambda>c. if 0x41 \<le> c \<and> c \<le> 0x5A then c + 0x20 else c) s"

definition sample_tasks_text :: jsstring where
  "sample_tasks_text =
     js ''['' @ dquote # js ''Wake at 7am'' @ dquote # comma # dquote #
       js ''Drink water'' @ dquote # js '']''"

definition sample_parse :: "jsstring \<Rightarrow> jserror + jsval" where
  "sample_parse s =
     (if s = js ''[]'' then Inr (JArr [])
      else if s = sample_tasks_text
      then Inr (JArr [JStr (js ''Wake at 7am''), JStr (js ''Drink water'')])
      else Inl (JsError (js ''Unexpected token'')))"

definition sample_base64 :: "8 word list \<Rightarrow> jsstring" where
  "sample_base64 bytes = (if bytes = [0] then js ''AA=='' else [])"

definition replying :: "jserror + jsstring \<Rightarrow> env" where
  "replying reply =
     \<lparr>generateContent = (\<lambda>calls r. reply), toLowerCase = ascii_lower,
      JSON_parse = sample_parse, base64 = sample_base64, store_error = None\<rparr>"

definition empty_world :: world where
  "empty_world = \<lparr>calls = [], files = Map.empty, routines = []\<rparr>"


section \<open>Properties of the strings\<close>

lemmas string_defs =
  js_def LF_def space_def star_def hyphen_def bullet_def hash_def colon_def equals_def
  backtick_def TAB_def comma_def dquote_def

lemmas points_defs =
  points_def clean_point_def trim_def is_ws_def remove_italics_def remove_bullet_def
  remove_header_def is_separator_def

lemma split_lines_not_Nil: "split_lines s \<noteq> []"
  by (induction s) (auto split: list.splits)

lemma not_ws_markers: "\<not> is_ws star" "\<not> is_ws hyphen" "\<not> is_ws bullet" "\<not> is_ws hash"
  "\<not> is_ws colon" "\<not> is_ws equals" "\<not> is_ws backtick" "is_ws space" "is_ws LF"
  by (simp_all add: is_ws_def star_def hyphen_def bullet_def hash_def colon_def equals_def backtick_def space_def LF_def)

lemma trim_Nil_iff: "trim l = [] \<longleftrightarrow> (\<forall>c\<in>set l. is_ws c)"
proof
  assume "trim l = []"
  then have all: "\<forall>c\<in>set (dropWhile is_ws l). is_ws c"
    by (simp add: trim_def dropWhile_eq_Nil_conv)
  have "dropWhile is_ws l = []"
  proof (rule ccontr)
    assume ne: "dropWhile is_ws l \<noteq> []"
    then have "\<not> is_ws (hd (dropWhile is_ws l))" by (rule hd_dropWhile)
    with all ne show False by simp
  qed
  then show "\<forall>c\<in>set l. is_ws c" by (simp add: dropWhile_eq_Nil_conv)
next
  assume "\<forall>c\<in>set l. is_ws c"
  then have "dropWhile is_ws l = []" by (simp add: dropWhile_eq_Nil_conv)
  then show "trim l = []" by (simp only: trim_def rev.simps dropWhile.simps)
qed

lemma trim_surrounded:
  assumes "list_all is_ws pre" and "list_all is_ws post"
    and "y \<noteq> []" and "\<not> is_ws (hd y)" and "\<not> is_ws (last y)"
  shows "trim (pre @ y @ post) = y"
proof -
  from assms(3,4) obtain c cs where y: "y = c # cs" and c: "\<not> is_ws c" by (cases y) auto
  have 1: "dropWhile is_ws (pre @ y @ post) = y @ post"
    using assms(1) c by (simp add: y dropWhile_append list_all_iff)
  from assms(3,5) obtain e es where ry: "rev y = e # es" and e: "\<not> is_ws e"
    by (cases "rev y") (auto simp: last_rev[symmetric] simp del: last_rev)
  have 2: "dropWhile is_ws (rev post @ rev y) = rev y"
    using assms(2) e by (simp add: ry dropWhile_append list_all_iff)
  show ?thesis by (simp add: trim_def 1 2)
qed

lemma set_trim: "set (trim s) \<subseteq> set s"
  by (auto simp: trim_def dest!: set_dropWhileD)


section \<open>The normalizer\<close>

lemma remove_bold_no_star: "star \<notin> set s \<Longrightarrow> remove_bold s = s"
  by (induction s rule: remove_bold.induct) auto

lemma remove_emphasis: "remove_italics (remove_bold s) = filter (\<lambda>c. c \<noteq> star) s"
  by (induction s rule: remove_bold.induct) (auto simp: remove_italics_def)

lemma normalize_spaces_blank:
  "\<forall>c\<in>set l. is_ws c \<Longrightarrow> normalize_spaces l = (if l = [] then [] else [space])"
  by (cases l) (auto simp: dropWhile_eq_Nil_conv[THEN iffD2])

lemma blank_line_cleans_to_Nil:
  assumes "trim l = []"
  shows "clean_point l = []"
proof -
  from assms have ws: "\<forall>c\<in>set l. is_ws c" by (simp add: trim_Nil_iff)
  then have e: "remove_italics (remove_bold l) = l"
    using not_ws_markers(1) by (auto simp: remove_emphasis filter_id_conv)
  have b: "remove_bullet l = l"
    using ws not_ws_markers by (cases l) (auto simp: remove_bullet_def)
  have h: "remove_header l = l"
    using ws not_ws_markers by (cases l) (auto simp: remove_header_def)
  show ?thesis
    using ws not_ws_markers(8)
    by (simp add: clean_point_def e b h normalize_spaces_blank trim_def)
qed

lemma filter_map_prefilter:
  "(\<And>x. \<not> Q x \<Longrightarrow> \<not> P (f x)) \<Longrightarrow> filter P (map f (filter Q xs)) = filter P (map f xs)"
  by (induction xs) auto

lemma only_separators_is_separator: "only_separators p \<Longrightarrow> p \<noteq> [] \<Longrightarrow> is_separator p"
  by (cases p) (auto simp: only_separators_def is_separator_def)

text \<open>
  Where the normalizer and the discard rule of the specification part: the points are
  the cleaned lines that the rule keeps, less those that begin with one of the four
  characters. The filter of blank lines applied before the cleaning changes nothing.
\<close>

lemma points_survivors:
  "points text =
     filter (\<lambda>p. \<not> spec_discard p \<and> \<not> is_separator p) (map clean_point (split_lines text))"
proof -
  have keep: "(p \<noteq> [] \<and> \<not> is_separator p \<and> 10 < length p) =
              (\<not> spec_discard p \<and> \<not> is_separator p)" for p
    using only_separators_is_separator[of p] by (auto simp: spec_discard_def)
  have "points text =
      filter (\<lambda>p. \<not> spec_discard p \<and> \<not> is_separator p)
        (map clean_point (filter (\<lambda>line. trim line \<noteq> []) (split_lines text)))"
    by (simp add: points_def keep)
  also have "\<dots> =
      filter (\<lambda>p. \<not> spec_discard p \<and> \<not> is_separator p) (map clean_point (split_lines text))"
    by (rule filter_map_prefilter) (simp add: blank_line_cleans_to_Nil spec_discard_def)
  finally show ?thesis .
qed

text \<open>
  Claim C1: the normalizer returns exactly the lines that survive the reference
  algorithm, which discards the cleaned lines that are empty, consist solely of \<open>:\<close>,
  \<open>#\<close>, \<open>-\<close>, \<open>=\<close>, or have length at most 10. The source tests only the first
  code unit, \<open>/^[:#\-=]/\<close>, under the comment "Remove separator lines": a line of prose
  that begins with a colon passes the cleaning unchanged, is not discarded by the rule,
  and is missing from the points. So is an indented list item, which the cleaning leaves
  with its hyphen.
\<close>

theorem points_drops_prose_line:
  "clean_point (js '': remember to drink water'') = js '': remember to drink water'' \<and>
   \<not> spec_discard (js '': remember to drink water'') \<and>
   points (js '': remember to drink water'') = [] \<and>
   clean_point (js ''  - Drink water with every meal'') = js ''- Drink water with every meal'' \<and>
   \<not> spec_discard (js ''- Drink water with every meal'') \<and>
   points (js ''  - Drink water with every meal'') = []"
  by (simp add: string_defs points_defs spec_discard_def only_separators_def)

text \<open>What does hold of every point: its length, no star, and its first code unit.\<close>

lemma set_normalize_spaces: "set (normalize_spaces s) \<subseteq> insert space (set s)"
proof (induction s rule: normalize_spaces.induct)
  case 1
  then show ?case by simp
next
  case (2 c cs)
  show ?case
  proof (cases "is_ws c")
    case True
    with 2 have "set (normalize_spaces (dropWhile is_ws cs)) \<subseteq> insert space (set (dropWhile is_ws cs))"
      by simp
    moreover have "set (dropWhile is_ws cs) \<subseteq> set cs" by (auto dest: set_dropWhileD)
    ultimately show ?thesis using True by auto
  next
    case False
    with 2 show ?thesis by auto
  qed
qed

lemma set_remove_bullet: "set (remove_bullet s) \<subseteq> set s"
  by (cases s) (auto simp: remove_bullet_def dest: set_dropWhileD)

lemma set_remove_header: "set (remove_header s) \<subseteq> set s"
  by (cases s) (auto simp: remove_header_def dest!: set_dropWhileD)

lemma no_star_clean_point: "star \<notin> set (clean_point l)"
proof -
  have "set (clean_point l) \<subseteq> insert space (set (filter (\<lambda>c. c \<noteq> star) l))"
    unfolding clean_point_def remove_emphasis
    using set_trim set_normalize_spaces set_remove_header set_remove_bullet
    by (meson order_trans insert_mono)
  moreover have "star \<noteq> space" by (simp add: star_def space_def)
  ultimately show ?thesis by auto
qed

lemma points_elements:
  assumes "p \<in> set (points text)"
  shows "length p > 10 \<and> star \<notin> set p \<and>
         (\<exists>c cs. p = c # cs \<and> c \<noteq> hash \<and> c \<noteq> hyphen \<and> c \<noteq> star \<and> c \<noteq> colon \<and> c \<noteq> equals)"
proof -
  from assms obtain l where p: "p = clean_point l" and ne: "p \<noteq> []"
    and sep: "\<not> is_separator p" and len: "length p > 10"
    by (auto simp: points_def)
  from ne obtain c cs where ccs: "p = c # cs" by (cases p) auto
  have star: "star \<notin> set p" by (simp add: p no_star_clean_point)
  with ccs have "c \<noteq> star" by auto
  with sep ccs len star show ?thesis by (auto simp: is_separator_def)
qed

text \<open>
  Claim C2: every point is longer than 10 and does not begin with \<open>#\<close>, \<open>-\<close>, the
  bullet or \<open>*\<close>. The source removes a bullet at index 0 of the line as split, before
  the line is trimmed, and the last filters do not look for the bullet: a bullet behind
  leading white space is the first code unit of the point that comes out.
\<close>

theorem points_keeps_indented_bullet:
  "points (js ''Staying hydrated supports kidney function.'' @ LF #
           js ''  '' @ bullet # js '' Drink water with every meal'') =
     [js ''Staying hydrated supports kidney function.'',
      bullet # js '' Drink water with every meal'']"
  by (simp add: string_defs points_defs)

text \<open>
  Claim C3: normalizing the joined points again gives the same points. A point that
  kept its bullet loses it in the second pass, where the bullet is at index 0.
\<close>

theorem points_not_idempotent:
  "points (TAB # bullet # js '' Sleep eight hours a night'') =
     [bullet # js '' Sleep eight hours a night''] \<and>
   points (join_lines (points (TAB # bullet # js '' Sleep eight hours a night''))) =
     [js ''Sleep eight hours a night'']"
  by (simp add: string_defs points_defs join_lines_def)

text \<open>
  Apart from that the normalizer is idempotent: when no point begins with the bullet,
  normalizing the joined points gives the points back. A point is single-spaced and
  trimmed, holds no star and no line break, and begins with none of the markers, so that
  the second pass splits the text into the same lines and changes none of them.
\<close>

lemma single_spaced_Cons:
  "single_spaced (a # s) \<longleftrightarrow>
     (is_ws a \<longrightarrow> a = space \<and> (s = [] \<or> \<not> is_ws (hd s))) \<and> single_spaced s"
  by (cases s) auto

lemma hd_normalize_spaces:
  "s \<noteq> [] \<Longrightarrow> \<not> is_ws (hd s) \<Longrightarrow> normalize_spaces s \<noteq> [] \<and> hd (normalize_spaces s) = hd s"
  by (cases s) auto

lemma single_spaced_normalize_spaces: "single_spaced (normalize_spaces s)"
proof (induction s rule: normalize_spaces.induct)
  case 1
  show ?case by simp
next
  case (2 c cs)
  show ?case
  proof (cases "is_ws c")
    case True
    let ?d = "dropWhile is_ws cs"
    have "normalize_spaces ?d = [] \<or> \<not> is_ws (hd (normalize_spaces ?d))"
    proof (cases "?d = []")
      case True
      then have "normalize_spaces ?d = []" by (simp only: normalize_spaces.simps)
      then show ?thesis ..
    next
      case False
      then have "\<not> is_ws (hd ?d)" by (rule hd_dropWhile)
      with False show ?thesis using hd_normalize_spaces[of ?d] by simp
    qed
    with True 2 show ?thesis by (simp add: single_spaced_Cons)
  next
    case False
    with 2 show ?thesis by (simp add: single_spaced_Cons)
  qed
qed

lemma normalize_spaces_fixed: "single_spaced s \<Longrightarrow> normalize_spaces s = s"
proof (induction s rule: single_spaced.induct)
  case 1
  show ?case by simp
next
  case (2 c)
  then show ?case by auto
next
  case (3 a b cs)
  then show ?case by (cases "is_ws a") auto
qed

lemma single_spaced_dropWhile: "single_spaced s \<Longrightarrow> single_spaced (dropWhile P s)"
  by (induction s) (auto simp: single_spaced_Cons)

lemma single_spaced_take: "single_spaced s \<Longrightarrow> single_spaced (take k s)"
proof (induction s arbitrary: k rule: single_spaced.induct)
  case 1
  show ?case by simp
next
  case (2 c)
  then show ?case by (cases k) auto
next
  case (3 a b cs)
  show ?case
  proof (cases k)
    case 0
    then show ?thesis by simp
  next
    case (Suc j)
    from 3 have "single_spaced (take j (b # cs))" by simp
    with 3(2) Suc show ?thesis by (cases j) (auto simp: single_spaced_Cons)
  qed
qed

lemma rev_dropWhile_rev: "rev (dropWhile P (rev s)) = take (length (dropWhile P (rev s))) s"
proof -
  have "rev s = takeWhile P (rev s) @ dropWhile P (rev s)" by simp
  then have "s = rev (dropWhile P (rev s)) @ rev (takeWhile P (rev s))"
    by (metis rev_append rev_rev_ident)
  then have "take (length (rev (dropWhile P (rev s)))) s = rev (dropWhile P (rev s))"
    by (metis append_eq_conv_conj)
  then show ?thesis by simp
qed

lemma single_spaced_trim: "single_spaced s \<Longrightarrow> single_spaced (trim s)"
  unfolding trim_def
  by (subst rev_dropWhile_rev) (intro single_spaced_take single_spaced_dropWhile)

lemma trim_ends:
  assumes "trim s \<noteq> []"
  shows "\<not> is_ws (hd (trim s)) \<and> \<not> is_ws (last (trim s))"
proof -
  let ?d = "dropWhile is_ws s"
  let ?e = "dropWhile is_ws (rev ?d)"
  from assms have e: "?e \<noteq> []" by (simp add: trim_def)
  have d: "?d \<noteq> []"
  proof
    assume "?d = []"
    then have "?e = []" by (simp only: rev.simps dropWhile.simps)
    with e show False ..
  qed
  have "last (trim s) = hd ?e" by (simp only: trim_def last_rev)
  moreover have "\<not> is_ws (hd ?e)" using e by (rule hd_dropWhile)
  moreover have "hd (trim s) = last ?e" by (simp only: trim_def hd_rev)
  moreover have "last ?e = last (rev ?d)"
  proof -
    have "rev ?d = takeWhile is_ws (rev ?d) @ ?e" by simp
    then show ?thesis using e by (metis last_appendR)
  qed
  moreover have "last (rev ?d) = hd ?d" by (rule last_rev)
  moreover have "\<not> is_ws (hd ?d)" using d by (rule hd_dropWhile)
  ultimately show ?thesis by simp
qed

lemma trim_trim: "trim (trim s) = trim s"
proof (cases "trim s = []")
  case True
  have "trim [] = []" by (simp add: trim_def)
  with True show ?thesis by simp
next
  case False
  with trim_ends[OF False] show ?thesis
    using trim_surrounded[of "[]" "[]" "trim s"] by simp
qed

lemma split_lines_no_LF: "LF \<notin> set p \<Longrightarrow> split_lines p = [p]"
  by (induction p) auto

lemma split_lines_append_LF:
  "LF \<notin> set p \<Longrightarrow> split_lines (p @ LF # rest) = p # split_lines rest"
  by (induction p) auto

lemma split_join_lines:
  "ps \<noteq> [] \<Longrightarrow> \<forall>p\<in>set ps. LF \<notin> set p \<Longrightarrow> split_lines (join_with [LF] ps) = ps"
proof (induction "[LF]" ps rule: join_with.induct)
  case 1
  then show ?case by simp
next
  case (2 x)
  then show ?case by (simp add: split_lines_no_LF)
next
  case (3 x v va)
  then show ?case by (simp add: split_lines_append_LF)
qed

lemma single_spaced_no_LF: "single_spaced p \<Longrightarrow> LF \<notin> set p"
proof (induction p rule: single_spaced.induct)
  case 1
  show ?case by simp
next
  case (2 c)
  then show ?case by (auto simp: is_ws_def LF_def space_def)
next
  case (3 a b cs)
  then show ?case by (auto simp: is_ws_def LF_def space_def)
qed

lemma clean_point_shape: "single_spaced (clean_point l) \<and> trim (clean_point l) = clean_point l"
  by (simp add: clean_point_def single_spaced_trim single_spaced_normalize_spaces trim_trim)

lemma clean_point_fixed:
  assumes "star \<notin> set p" and "single_spaced p" and "trim p = p"
    and "p = c # cs" and "c \<noteq> hyphen" and "c \<noteq> bullet" and "c \<noteq> hash"
  shows "clean_point p = p"
proof -
  have 1: "remove_italics (remove_bold p) = p"
    using assms(1) by (auto simp: remove_emphasis filter_id_conv)
  have 2: "remove_bullet p = p" using assms(1,4-6) by (auto simp: remove_bullet_def)
  have 3: "remove_header p = p" using assms(4,7) by (simp add: remove_header_def)
  show ?thesis
    by (simp add: clean_point_def 1 2 3 normalize_spaces_fixed[OF assms(2)] assms(3))
qed

lemma points_idempotent_without_bullet:
  assumes "\<forall>p\<in>set (points text). hd p \<noteq> bullet"
  shows "points (join_lines (points text)) = points text"
proof (cases "points text = []")
  case True
  then show ?thesis by (simp add: join_lines_def points_def trim_def)
next
  case False
  let ?ps = "points text"
  have each: "clean_point p = p \<and> trim p = p \<and> p \<noteq> [] \<and> \<not> is_separator p \<and>
              length p > 10 \<and> LF \<notin> set p" if p: "p \<in> set ?ps" for p
  proof -
    from p obtain l where l: "p = clean_point l" and sep: "\<not> is_separator p"
      and len: "length p > 10"
      by (auto simp: points_def)
    from points_elements[OF p] obtain c cs where
      c: "p = c # cs" "c \<noteq> hash" "c \<noteq> hyphen" and star: "star \<notin> set p"
      by blast
    from assms p c(1) have b: "c \<noteq> bullet" by auto
    from clean_point_shape[of l] l have sh: "single_spaced p" "trim p = p" by simp_all
    have "clean_point p = p"
      using clean_point_fixed[OF star sh c(1) c(3) b c(2)] .
    moreover have "LF \<notin> set p" using sh(1) by (rule single_spaced_no_LF)
    moreover have "p \<noteq> []" using c(1) by simp
    ultimately show ?thesis using sh(2) sep len by blast
  qed
  then have split: "split_lines (join_lines ?ps) = ?ps"
    using False by (simp add: join_lines_def split_join_lines)
  have a: "filter (\<lambda>line. trim line \<noteq> []) ?ps = ?ps" using each by (simp add: filter_id_conv)
  have b: "map clean_point ?ps = ?ps" using each by (simp add: map_idI)
  have c: "filter (\<lambda>point. point \<noteq> [] \<and> \<not> is_separator point) ?ps = ?ps"
    using each by (simp add: filter_id_conv)
  have d: "filter (\<lambda>point. length point > 10) ?ps = ?ps"
    using each by (simp add: filter_id_conv)
  have "points (join_lines ?ps) =
      filter (\<lambda>point. length point > 10)
       (filter (\<lambda>point. point \<noteq> [] \<and> \<not> is_separator point)
          (map clean_point (filter (\<lambda>line. trim line \<noteq> []) ?ps)))"
    by (subst points_def) (simp only: split)
  then show ?thesis by (simp only: a b c d)
qed


section \<open>The classifier and the chat handlers\<close>

lemma isHealthRelated_world:
  "snd (isHealthRelated env m w) = w\<lparr>calls := calls w @ [[Text (classify_prompt m)]]\<rparr>"
  by (simp add: isHealthRelated_def Let_def split: sum.splits)

text \<open>
  Claim C5. The classifier answers true exactly when the reply of its call to the model,
  lower-cased and trimmed, is the text \<open>true\<close>; when the call fails it answers false,
  and so it does for any other reply. It returns a truth value whatever happens.
\<close>

theorem classifier_fail_closed:
  "fst (isHealthRelated env m w) =
     (case generateContent env (calls w) [Text (classify_prompt m)] of
        Inl e \<Rightarrow> False
      | Inr t \<Rightarrow> trim (toLowerCase env t) = js ''true'')"
  by (simp add: isHealthRelated_def Let_def split: sum.splits)

theorem classifier_fail_closed_witness:
  "fst (isHealthRelated (replying (Inr (js '' True'' @ [LF]))) (js ''Is aspirin safe?'') empty_world) \<and>
   \<not> fst (isHealthRelated (replying (Inr (js ''yes''))) (js ''Is aspirin safe?'') empty_world) \<and>
   \<not> fst (isHealthRelated (replying (Inl (JsError (js ''fetch failed''))))
            (js ''Is aspirin safe?'') empty_world)"
  using classifier_fail_closed[of "replying (Inr (js '' True'' @ [LF]))" "js ''Is aspirin safe?''"
      empty_world]
    classifier_fail_closed[of "replying (Inr (js ''yes''))" "js ''Is aspirin safe?''" empty_world]
    classifier_fail_closed[of "replying (Inl (JsError (js ''fetch failed'')))"
      "js ''Is aspirin safe?''" empty_world]
  by (simp add: replying_def ascii_lower_def string_defs trim_def is_ws_def)

text \<open>
  Claim C4. When the classifier answers false for the text of a query, both handlers end
  with the OutOfDomain response, and the only call made to the model is the classifier's
  own: the request that would generate the answer is never sent.
\<close>

theorem out_of_domain_without_generation:
  assumes "m \<noteq> []" and "\<not> fst (isHealthRelated env m w)"
  shows "chat env now (Some m) w =
           (OutOfDomain, w\<lparr>calls := calls w @ [[Text (classify_prompt m)]]\<rparr>) \<and>
         chat_with_image env now (Some m) imageFile w =
           (OutOfDomain,
            unlink_upload imageFile (w\<lparr>calls := calls w @ [[Text (classify_prompt m)]]\<rparr>))"
proof -
  obtain h w1 where hw: "isHealthRelated env m w = (h, w1)" by (cases "isHealthRelated env m w")
  with assms(2) have h: "\<not> h" by simp
  from hw isHealthRelated_world[of env m w]
  have w1: "w1 = w\<lparr>calls := calls w @ [[Text (classify_prompt m)]]\<rparr>" by simp
  show ?thesis
    using assms(1) h by (simp add: chat_def chat_with_image_def truthy_text_def hw w1)
qed

theorem out_of_domain_without_generation_witness:
  "chat (replying (Inr (js ''False''))) 0 (Some (js ''Who won the match?'')) empty_world =
     (OutOfDomain, empty_world\<lparr>calls := [[Text (classify_prompt (js ''Who won the match?''))]]\<rparr>) \<and>
   chat_with_image (replying (Inr (js ''False''))) 0 (Some (js ''Who won the match?''))
       (Some \<lparr>path = js ''uploads/image-1.png'', mimetype = js ''image/png''\<rparr>)
       (empty_world\<lparr>files := [js ''uploads/image-1.png'' \<mapsto> [0]]\<rparr>) =
     (OutOfDomain, empty_world\<lparr>calls := [[Text (classify_prompt (js ''Who won the match?''))]]\<rparr>)"
proof -
  have ne: "js ''Who won the match?'' \<noteq> []" by (simp add: js_def)
  have v: "\<not> fst (isHealthRelated (replying (Inr (js ''False''))) (js ''Who won the match?'') w)" for w
    by (simp add: isHealthRelated_def replying_def ascii_lower_def string_defs trim_def is_ws_def Let_def)
  show ?thesis
    using out_of_domain_without_generation[where w = empty_world and now = 0
          and imageFile = None, OF ne v]
      out_of_domain_without_generation[
        where w = "empty_world\<lparr>files := [js ''uploads/image-1.png'' \<mapsto> [0]]\<rparr>"
          and now = 0
          and imageFile = "Some \<lparr>path = js ''uploads/image-1.png'', mimetype = js ''image/png''\<rparr>",
        OF ne v]
    by (simp add: empty_world_def unlink_upload_def)
qed

text \<open>
  Claim C9, as amended. For a request with an image and no text the classifier is not
  called. When the stored image can be read, the model is called once, with the fixed
  instruction followed by the image part; when it cannot, the request ends with
  ImageProcessingFailure and the model is not called.
\<close>

theorem image_only_generation:
  assumes "\<not> truthy_text userText"
  shows "(files w (path f) = Some bytes \<longrightarrow>
            calls (snd (chat_with_image env now userText (Some f) w)) =
              calls w @ [[Text image_instruction, InlineData (base64 env bytes) (mimetype f)]]) \<and>
         (files w (path f) = None \<longrightarrow>
            chat_with_image env now userText (Some f) w = (ImageProcessingFailure, w))"
  using assms
  by (auto simp: chat_with_image_def truthy_text_def fileToGenerativePart_def unlink_upload_def
        ImageProcessingFailure_def Let_def split: option.splits sum.splits)

theorem image_only_generation_counterexample:
  "chat_with_image (replying (Inr (js ''The image shows a healthy lung.''))) 0 None
     (Some \<lparr>path = js ''uploads/image-1.png'', mimetype = js ''image/png''\<rparr>) empty_world =
   (ImageProcessingFailure, empty_world)"
  by (simp add: chat_with_image_def truthy_text_def fileToGenerativePart_def unlink_upload_def
        ImageProcessingFailure_def empty_world_def)

theorem image_only_generation_witness:
  "calls (snd (chat_with_image (replying (Inr (js ''The image shows a healthy lung.''))) 0 None
     (Some \<lparr>path = js ''uploads/image-1.png'', mimetype = js ''image/png''\<rparr>)
     (empty_world\<lparr>files := [js ''uploads/image-1.png'' \<mapsto> [0]]\<rparr>))) =
   [[Text image_instruction, InlineData (js ''AA=='') (js ''image/png'')]] \<and>
   chat_with_image (replying (Inr (js ''The image shows a healthy lung.''))) 0 (Some [])
     (Some \<lparr>path = js ''uploads/image-1.png'', mimetype = js ''image/png''\<rparr>) empty_world =
   (ImageProcessingFailure, empty_world)"
proof -
  have a: "\<not> truthy_text None" "\<not> truthy_text (Some [])" by (simp_all add: truthy_text_def)
  show ?thesis
    using image_only_generation[OF a(1),
        where w = "empty_world\<lparr>files := [js ''uploads/image-1.png'' \<mapsto> [0]]\<rparr>"
          and f = "\<lparr>path = js ''uploads/image-1.png'', mimetype = js ''image/png''\<rparr>"
          and bytes = "[0]"
          and env = "replying (Inr (js ''The image shows a healthy lung.''))" and now = 0]
      image_only_generation[OF a(2), where w = empty_world
          and f = "\<lparr>path = js ''uploads/image-1.png'', mimetype = js ''image/png''\<rparr>"
          and env = "replying (Inr (js ''The image shows a healthy lung.''))" and now = 0]
    by (simp add: empty_world_def replying_def sample_base64_def)
qed


section \<open>The routine generator\<close>

subsection \<open>The document store\<close>

lemma findOneAndUpdate_result:
  "findOneAndUpdate u r t c ds = (d, ds') \<Longrightarrow>
     userId d = u \<and> routine d = r \<and> updatedAt d = t \<and> d \<in> set ds'"
  by (induction ds arbitrary: d ds') (auto simp: Let_def split: if_splits prod.splits)

lemma findOneAndUpdate_absent:
  "filter (\<lambda>d. userId d = u) ds = [] \<Longrightarrow>
     findOneAndUpdate u r t c ds =
       (\<lparr>userId = u, routine = r, createdAt = c, updatedAt = t\<rparr>,
        ds @ [\<lparr>userId = u, routine = r, createdAt = c, updatedAt = t\<rparr>])"
  by (induction ds) (auto simp: Let_def split: if_splits)

lemma findOneAndUpdate_present:
  "filter (\<lambda>d. userId d = u) ds = d # rest \<Longrightarrow>
     fst (findOneAndUpdate u r t c ds) = d\<lparr>routine := r, updatedAt := t\<rparr> \<and>
     filter (\<lambda>d. userId d = u) (snd (findOneAndUpdate u r t c ds)) =
       d\<lparr>routine := r, updatedAt := t\<rparr> # rest"
  by (induction ds) (auto simp: Let_def split: if_splits prod.splits)

lemma findOneAndUpdate_others:
  "v \<noteq> u \<Longrightarrow>
     filter (\<lambda>d. userId d = v) (snd (findOneAndUpdate u r t c ds)) = filter (\<lambda>d. userId d = v) ds"
  by (induction ds) (auto simp: Let_def split: if_splits prod.splits)

text \<open>
  A store in which no user has two documents stays so: this is the state of every store
  that started empty and was written by upserts only.
\<close>

lemma findOneAndUpdate_at_most_one:
  assumes "\<And>v. length (filter (\<lambda>d. userId d = v) ds) \<le> 1"
  shows "length (filter (\<lambda>d. userId d = v) (snd (findOneAndUpdate u r t c ds))) \<le> 1"
proof (cases "v = u")
  case False
  then show ?thesis using assms[of v] by (simp add: findOneAndUpdate_others)
next
  case True
  show ?thesis
  proof (cases "filter (\<lambda>d. userId d = u) ds")
    case Nil
    then show ?thesis by (simp add: True findOneAndUpdate_absent)
  next
    case (Cons d rest)
    with assms[of u] have "rest = []" by simp
    with Cons show ?thesis
      using findOneAndUpdate_present[of u ds d "[]" r t c] by (simp add: True)
  qed
qed

text \<open>
  Claim C8, as amended. In a store that holds at most one document of the user, two
  upserts for the user leave exactly one document of the user, the one the second upsert
  returns; its routine is the second routine, its \<open>updatedAt\<close> is the date given to the
  second upsert, and its \<open>createdAt\<close> is that of the document after the first upsert.
  \<open>updatedAt\<close> has grown exactly when the second date is later than the first.
\<close>

theorem upsert_twice:
  assumes "length (filter (\<lambda>d. userId d = u) ds) \<le> 1"
  shows "filter (\<lambda>d. userId d = u)
           (snd (findOneAndUpdate u r2 t2 c2 (snd (findOneAndUpdate u r1 t1 c1 ds)))) =
           [fst (findOneAndUpdate u r2 t2 c2 (snd (findOneAndUpdate u r1 t1 c1 ds)))] \<and>
         routine (fst (findOneAndUpdate u r2 t2 c2 (snd (findOneAndUpdate u r1 t1 c1 ds)))) = r2 \<and>
         updatedAt (fst (findOneAndUpdate u r2 t2 c2 (snd (findOneAndUpdate u r1 t1 c1 ds)))) = t2 \<and>
         createdAt (fst (findOneAndUpdate u r2 t2 c2 (snd (findOneAndUpdate u r1 t1 c1 ds)))) =
           createdAt (fst (findOneAndUpdate u r1 t1 c1 ds)) \<and>
         (updatedAt (fst (findOneAndUpdate u r1 t1 c1 ds))
            < updatedAt (fst (findOneAndUpdate u r2 t2 c2 (snd (findOneAndUpdate u r1 t1 c1 ds))))
          \<longleftrightarrow> t1 < t2)"
proof -
  define d1 where "d1 = fst (findOneAndUpdate u r1 t1 c1 ds)"
  define ds1 where "ds1 = snd (findOneAndUpdate u r1 t1 c1 ds)"
  have one: "filter (\<lambda>d. userId d = u) ds1 = [d1]"
  proof (cases "filter (\<lambda>d. userId d = u) ds")
    case Nil
    then show ?thesis by (simp add: d1_def ds1_def findOneAndUpdate_absent)
  next
    case (Cons d rest)
    with assms have "rest = []" by simp
    with Cons show ?thesis
      using findOneAndUpdate_present[of u ds d "[]" r1 t1 c1] by (simp add: d1_def ds1_def)
  qed
  have u1: "updatedAt d1 = t1"
    using findOneAndUpdate_result[of u r1 t1 c1 ds d1 ds1] by (simp add: d1_def ds1_def)
  from findOneAndUpdate_present[OF one, of r2 t2 c2] u1
  show ?thesis unfolding d1_def[symmetric] ds1_def[symmetric] by simp
qed

text \<open>Two upserts at the same clock reading: \<open>updatedAt\<close> is not strictly later.\<close>

theorem upsert_twice_counterexample:
  "updatedAt (fst (findOneAndUpdate (js ''u1'') [js ''Drink water''] 1000 1001
      (snd (findOneAndUpdate (js ''u1'') [js ''Wake at 7am''] 1000 1000 [])))) =
   updatedAt (fst (findOneAndUpdate (js ''u1'') [js ''Wake at 7am''] 1000 1000 []))"
  by (simp add: Let_def)

theorem upsert_twice_witness:
  "filter (\<lambda>d. userId d = js ''u1'')
     (snd (findOneAndUpdate (js ''u1'') [js ''Drink water''] 2000 2001
        (snd (findOneAndUpdate (js ''u1'') [js ''Wake at 7am''] 1000 1001 [])))) =
     [\<lparr>userId = js ''u1'', routine = [js ''Drink water''], createdAt = 1001, updatedAt = 2000\<rparr>]"
  using upsert_twice[of "js ''u1''" "[]" "[js ''Drink water'']" 2000 2001 "[js ''Wake at 7am'']" 1000 1001]
  by (simp add: Let_def)


subsection \<open>Validation of the answers\<close>

lemma length_routineQuestions: "length routineQuestions = 10"
  by (simp add: routineQuestions_def)

lemma collect_Inr: "collect (map Inr xs) = Inr xs"
  by (induction xs) auto

lemma collect_map_Inr:
  "(\<And>x. x \<in> set xs \<Longrightarrow> f x = Inr (g x)) \<Longrightarrow> collect (map f xs) = Inr (map g xs)"
  by (induction xs) auto

lemma formattedAnswers_strings:
  assumes "list_all (\<lambda>v. \<exists>s. v = JStr s) as"
  shows "\<exists>fa. formattedAnswers as = Inr fa"
proof -
  have t: "\<exists>s. answer_text as i = Inr s" for i
    using assms by (auto simp: answer_text_def list_all_length)
  define g where "g = (\<lambda>(question :: jsstring, index).
      js ''Q: '' @ question @ LF # js ''A: '' @ projr (answer_text as index))"
  have "collect (map (\<lambda>(question, index).
                     case answer_text as index of
                       Inl e \<Rightarrow> Inl e
                     | Inr a \<Rightarrow> Inr (js ''Q: '' @ question @ LF # js ''A: '' @ a))
                (zip routineQuestions [0 ..< length routineQuestions])) =
        Inr (map g (zip routineQuestions [0 ..< length routineQuestions]))"
  proof (rule collect_map_Inr)
    fix x :: "jsstring \<times> nat"
    obtain q i where x: "x = (q, i)" by (cases x)
    from t[of i] obtain s where "answer_text as i = Inr s" ..
    then show "(case x of (question, index) \<Rightarrow>
                     case answer_text as index of
                       Inl e \<Rightarrow> Inl e
                     | Inr a \<Rightarrow> Inr (js ''Q: '' @ question @ LF # js ''A: '' @ a)) = Inr (g x)"
      by (simp add: x g_def)
  qed
  then show ?thesis by (simp add: formattedAnswers_def)
qed

lemma generate_without_user:
  "\<not> truthy_text user \<Longrightarrow> generate env now ins user answers w = (MissingUserId, w)"
  by (auto simp: generate_def truthy_text_def split: option.splits)

lemma generate_answers_checked:
  assumes "u \<noteq> []"
  shows "(fst (generate env now ins (Some u) answers w) = AnswerCountMismatch) =
           (\<not> (\<exists>as. answers = Some (JArr as) \<and> length as = length routineQuestions)) \<and>
         (\<not> (\<exists>as. answers = Some (JArr as) \<and> length as = length routineQuestions) \<longrightarrow>
            snd (generate env now ins (Some u) answers w) = w)"
proof (cases "\<exists>as. answers = Some (JArr as) \<and> length as = length routineQuestions")
  case True
  then obtain as where a: "answers = Some (JArr as)" "length as = length routineQuestions" by blast
  have "fst (generate env now ins (Some u) answers w) \<noteq> AnswerCountMismatch"
    using assms a
    by (auto simp: generate_def AnswerCountMismatch_def RoutineGenerationFailure_def
          MalformedRoutineOutput_def SaveFailure_def Let_def
          split: sum.splits option.splits prod.splits)
  with True show ?thesis by simp
next
  case False
  then have "generate env now ins (Some u) answers w = (AnswerCountMismatch, w)"
    using assms
    by (cases answers; cases "the answers") (auto simp: generate_def)
  with False show ?thesis by simp
qed

text \<open>
  Claim C6, as amended. A request without a user id is answered MissingUserId whatever
  its answers are, and nothing is called or written. For a request with a user id, the
  response is AnswerCountMismatch exactly when \<open>answers\<close> is absent, is not an array, or
  is an array whose length differs from the number of questions; the model is then not
  called and nothing is written. What the elements of the array are is not examined.
\<close>

theorem answers_validation:
  "(\<not> truthy_text user \<longrightarrow> generate env now ins user answers w = (MissingUserId, w)) \<and>
   (truthy_text user \<longrightarrow>
      (fst (generate env now ins user answers w) = AnswerCountMismatch) =
        (\<not> (\<exists>as. answers = Some (JArr as) \<and> length as = length routineQuestions)) \<and>
      (\<not> (\<exists>as. answers = Some (JArr as) \<and> length as = length routineQuestions) \<longrightarrow>
         snd (generate env now ins user answers w) = w))"
proof (cases "truthy_text user")
  case False
  with generate_without_user[OF False, of env now ins answers w] show ?thesis by blast
next
  case True
  then obtain u where u: "user = Some u" "u \<noteq> []"
    by (auto simp: truthy_text_def split: option.splits)
  from True generate_answers_checked[OF u(2), of env now ins answers w]
  show ?thesis unfolding u(1) by blast
qed

text \<open>
  An array of ten numbers is not a sequence of strings, and the handler goes on to call
  the model and to store the reply; and without a user id the response is MissingUserId
  whatever the answers are.
\<close>

theorem answers_validation_counterexample:
  "fst (generate (replying (Inr (js ''[]''))) 7 5 (Some (js ''u1''))
         (Some (JArr (replicate 10 (JNum (js ''7''))))) empty_world) = Routine [] 5 7 \<and>
   length (calls (snd (generate (replying (Inr (js ''[]''))) 7 5 (Some (js ''u1''))
         (Some (JArr (replicate 10 (JNum (js ''7''))))) empty_world))) = 1 \<and>
   fst (generate (replying (Inr (js ''[]''))) 7 5 None (Some (JArr [])) empty_world) =
     MissingUserId"
  by code_simp

theorem answers_validation_witness:
  "generate (replying (Inr (js ''[]''))) 7 5 None
         (Some (JArr (replicate 10 (JStr (js ''yes''))))) empty_world = (MissingUserId, empty_world) \<and>
   generate (replying (Inr (js ''[]''))) 7 5 (Some [])
         (Some (JArr (replicate 10 (JStr (js ''yes''))))) empty_world = (MissingUserId, empty_world) \<and>
   fst (generate (replying (Inr (js ''[]''))) 7 5 (Some (js ''u1''))
         (Some (JArr [JStr (js ''6 am''), JStr (js ''10 pm'')])) empty_world) = AnswerCountMismatch \<and>
   snd (generate (replying (Inr (js ''[]''))) 7 5 (Some (js ''u1''))
         (Some (JArr [JStr (js ''6 am''), JStr (js ''10 pm'')])) empty_world) = empty_world \<and>
   fst (generate (replying (Inr (js ''[]''))) 7 5 (Some (js ''u1''))
         (Some (JArr (replicate 10 (JStr (js ''yes''))))) empty_world) \<noteq> AnswerCountMismatch"
proof -
  have u: "truthy_text (Some (js ''u1''))" "\<not> truthy_text None" "\<not> truthy_text (Some [])"
    by (simp_all add: truthy_text_def js_def)
  show ?thesis
    using answers_validation[where user = None
        and answers = "Some (JArr (replicate 10 (JStr (js ''yes''))))"
        and env = "replying (Inr (js ''[]''))" and now = 7 and ins = 5 and w = empty_world]
      answers_validation[where user = "Some []"
        and answers = "Some (JArr (replicate 10 (JStr (js ''yes''))))"
        and env = "replying (Inr (js ''[]''))" and now = 7 and ins = 5 and w = empty_world]
      answers_validation[where user = "Some (js ''u1'')"
        and answers = "Some (JArr [JStr (js ''6 am''), JStr (js ''10 pm'')])"
        and env = "replying (Inr (js ''[]''))" and now = 7 and ins = 5 and w = empty_world]
      answers_validation[where user = "Some (js ''u1'')"
        and answers = "Some (JArr (replicate 10 (JStr (js ''yes''))))"
        and env = "replying (Inr (js ''[]''))" and now = 7 and ins = 5 and w = empty_world]
    by (simp add: u routineQuestions_def)
qed


subsection \<open>Parsing the reply\<close>


lemma strings_Some_iff: "strings vs = Some ts \<longleftrightarrow> vs = map JStr ts"
proof (induction vs arbitrary: ts)
  case Nil
  show ?case by auto
next
  case (Cons v vs)
  show ?case by (cases v; cases ts) (auto simp: Cons.IH)
qed

lemma routineTasks_Some_iff:
  "routineTasks env t = Some ts \<longleftrightarrow>
     JSON_parse env (strip_fences (trim t)) = Inr (JArr (map JStr ts))"
  by (auto simp: routineTasks_def Let_def strings_Some_iff split: sum.splits jsval.splits)




lemma generate_parsed:
  assumes "u \<noteq> []" and "length as = length routineQuestions"
    and "formattedAnswers as = Inr fa"
    and "generateContent env (calls w) [Text (promptText fa)] = Inr t"
  shows "generate env now ins (Some u) (Some (JArr as)) w =
     (case routineTasks env t of
        None \<Rightarrow> (MalformedRoutineOutput, w\<lparr>calls := calls w @ [[Text (promptText fa)]]\<rparr>)
      | Some tasks \<Rightarrow>
          (case store_error env of
             Some error \<Rightarrow> (SaveFailure error, w\<lparr>calls := calls w @ [[Text (promptText fa)]]\<rparr>)
           | None \<Rightarrow>
               (Routine tasks (createdAt (fst (findOneAndUpdate u tasks now ins (routines w)))) now,
                w\<lparr>calls := calls w @ [[Text (promptText fa)]],
                  routines := snd (findOneAndUpdate u tasks now ins (routines w))\<rparr>)))"
  using assms
  by (auto simp: generate_def Let_def split: option.splits prod.splits
        dest: findOneAndUpdate_result)



text \<open>
  Claim C10. When the reply decodes to the empty array and the store accepts the write,
  the response is the success response with the empty routine, and the store holds a
  document of the user whose routine is empty.
\<close>

theorem empty_routine_accepted:
  assumes "u \<noteq> []" and "length as = length routineQuestions"
    and "formattedAnswers as = Inr fa"
    and "generateContent env (calls w) [Text (promptText fa)] = Inr t"
    and "JSON_parse env (strip_fences (trim t)) = Inr (JArr [])"
    and "store_error env = None"
  shows "fst (generate env now ins (Some u) (Some (JArr as)) w) =
           Routine [] (createdAt (fst (findOneAndUpdate u [] now ins (routines w)))) now \<and>
         routines (snd (generate env now ins (Some u) (Some (JArr as)) w)) =
           snd (findOneAndUpdate u [] now ins (routines w)) \<and>
         (\<exists>d \<in> set (routines (snd (generate env now ins (Some u) (Some (JArr as)) w))).
            userId d = u \<and> routine d = [] \<and> updatedAt d = now)"
proof -
  have "routineTasks env t = Some []"
    using assms(5) routineTasks_Some_iff[of env t "[]"] by simp
  then have g: "generate env now ins (Some u) (Some (JArr as)) w =
      (Routine [] (createdAt (fst (findOneAndUpdate u [] now ins (routines w)))) now,
       w\<lparr>calls := calls w @ [[Text (promptText fa)]],
         routines := snd (findOneAndUpdate u [] now ins (routines w))\<rparr>)"
    using generate_parsed[OF assms(1-4), of now ins] assms(6) by simp
  have "\<exists>d \<in> set (snd (findOneAndUpdate u [] now ins (routines w))).
          userId d = u \<and> routine d = [] \<and> updatedAt d = now"
    using findOneAndUpdate_result[of u "[]" now ins "routines w"]
    by (cases "findOneAndUpdate u [] now ins (routines w)") auto
  with g show ?thesis by simp
qed

theorem empty_routine_accepted_witness:
  "fst (generate (replying (Inr (js ''[]''))) 7 5 (Some (js ''u1''))
          (Some (JArr (replicate 10 (JStr (js ''yes''))))) empty_world) = Routine [] 5 7 \<and>
   routines (snd (generate (replying (Inr (js ''[]''))) 7 5 (Some (js ''u1''))
          (Some (JArr (replicate 10 (JStr (js ''yes''))))) empty_world)) =
     [\<lparr>userId = js ''u1'', routine = [], createdAt = 5, updatedAt = 7\<rparr>]"
proof -
  obtain fa where fa: "formattedAnswers (replicate 10 (JStr (js ''yes''))) = Inr fa"
    using formattedAnswers_strings[of "replicate 10 (JStr (js ''yes''))"]
    by (auto simp: list_all_iff)
  have u: "js ''u1'' \<noteq> []" by (simp add: js_def)
  have l: "length (replicate 10 (JStr (js ''yes''))) = length routineQuestions"
    by (simp add: length_routineQuestions)
  have g: "generateContent (replying (Inr (js ''[]''))) (calls empty_world) [Text (promptText fa)] =
      Inr (js ''[]'')"
    by (simp add: replying_def)
  have p: "JSON_parse (replying (Inr (js ''[]''))) (strip_fences (trim (js ''[]''))) = Inr (JArr [])"
    by (simp add: replying_def sample_parse_def strip_fences_def fence_def string_defs trim_def is_ws_def)
  have s: "store_error (replying (Inr (js ''[]''))) = None" by (simp add: replying_def)
  show ?thesis
    using empty_routine_accepted[OF u l fa g p s, of 7 5]
    by (simp add: empty_world_def Let_def)
qed

end
